theory Spec2Isabelle
  imports Main "HOL-Library.Word" "HOL-Library.Sublist"
begin

unbundle bit_operations_syntax

section \<open>Bytes, constants and little-endian encoding\<close>

type_synonym byte = "8 word"

text \<open>
  Modelled from the spec: the constants of the repository's constants.go and
  noise-protocol.go that the spec fixes by value. The transport message type is 4, the
  transport header is 16 bytes, padding is to multiples of 16, and a keepalive frame is
  32 bytes (header plus tag).
\<close>

definition MessageTransportType :: "32 word" where
  "MessageTransportType = 4"

definition MessageTransportHeaderSize :: nat where
  "MessageTransportHeaderSize = 16"

definition PaddingMultiple :: nat where
  "PaddingMultiple = 16"

definition MessageKeepaliveSize :: nat where
  "MessageKeepaliveSize = 32"

text \<open>
  The tunables of constants.go whose values the spec leaves open are parameters of the
  model. Times and durations are integers (nanoseconds).
\<close>

record Constants =
  RekeyAfterMessages :: "64 word"
  RejectAfterMessages :: "64 word"
  RekeyAfterTime :: int
  RejectAfterTime :: int
  RekeyTimeout :: int
  MaxContentSize :: nat
  QueueNonceSize :: nat
  QueueOutboundSize :: nat
  QueueEncryptionSize :: nat

text \<open>
  \<open>binary.LittleEndian.PutUint32\<close> and \<open>PutUint64\<close> of Go's encoding/binary:
  byte i of the output is \<open>byte(v >> (8 * i))\<close>.
\<close>

definition PutUint32 :: "32 word \<Rightarrow> byte list" where
  "PutUint32 v = [ucast v, ucast (drop_bit 8 v), ucast (drop_bit 16 v), ucast (drop_bit 24 v)]"

definition PutUint64 :: "64 word \<Rightarrow> byte list" where
  "PutUint64 v =
     [ucast v, ucast (drop_bit 8 v), ucast (drop_bit 16 v), ucast (drop_bit 24 v),
      ucast (drop_bit 32 v), ucast (drop_bit 40 v), ucast (drop_bit 48 v), ucast (drop_bit 56 v)]"

section \<open>Encryption worker: header, padding, sealing (RoutineEncryption)\<close>

text \<open>
  The padding loop of RoutineEncryption:
  \<^verbatim>\<open>for i := 0; i < PaddingMultiple-rem && len(elem.packet) < mtu; i++ { append 0 }\<close>.
  The first argument counts the iterations that remain, \<open>PaddingMultiple - rem - i\<close>.
\<close>

fun padLoop :: "nat \<Rightarrow> int \<Rightarrow> byte list \<Rightarrow> byte list" where
  "padLoop 0 mtu pkt = pkt"
| "padLoop (Suc k) mtu pkt =
     (if int (length pkt) < mtu then padLoop k mtu (pkt @ [0]) else pkt)"

definition padContent :: "int \<Rightarrow> byte list \<Rightarrow> byte list" where
  "padContent mtu pkt =
     (let rem = length pkt mod PaddingMultiple
      in if rem > 0 then padLoop (PaddingMultiple - rem) mtu pkt else pkt)"

text \<open>
  \<open>cipher.AEAD.Seal(dst, nonce, plaintext, additionalData)\<close> appends the sealed
  plaintext to \<open>dst\<close> and returns the extended slice; the ChaCha20-Poly1305
  implementation panics unless the nonce has \<open>NonceSize = 12\<close> bytes. The cipher
  itself is a parameter: a function from nonce, plaintext and associated data to
  ciphertext followed by tag.
\<close>

type_synonym aead = "byte list \<Rightarrow> byte list \<Rightarrow> byte list \<Rightarrow> byte list"

definition NonceSize :: nat where
  "NonceSize = 12"

definition Seal :: "aead \<Rightarrow> byte list \<Rightarrow> byte list \<Rightarrow> byte list \<Rightarrow> byte list \<Rightarrow> byte list option" where
  "Seal cipher dst nonce plaintext additionalData =
     (if length nonce = NonceSize then Some (dst @ cipher nonce plaintext additionalData)
      else None)"

record Keypair =
  sendNonce :: "64 word"
  isInitiator :: bool
  created :: int
  remoteIndex :: "32 word"
  send :: aead

text \<open>
  The part of a work element that an encryption worker reads and writes. The header is
  written into the 16 bytes of the buffer in front of the packet; the model keeps the
  packet as a value, and the result of \<open>Seal\<close> (header, ciphertext, tag) becomes the
  new packet.
\<close>

record WorkItem =
  wDropped :: bool
  wPacket :: "byte list"
  wNonce :: "64 word"
  wKeyPair :: Keypair
  wMtu :: int

text \<open>
  One iteration of the worker's loop on a popped element. The worker's local
  \<open>nonce\<close> array (12 bytes, zero when the routine starts) is threaded through:
  \<open>PutUint64(nonce[4:], elem.nonce)\<close> overwrites bytes 4..11 only. The result is the
  new nonce array and the element's packet after the iteration; \<open>None\<close> is the panic
  of \<open>Seal\<close>. A dropped element is skipped (\<open>continue\<close>) with its packet unchanged.
\<close>

definition encryptElement :: "byte list \<Rightarrow> WorkItem \<Rightarrow> (byte list \<times> byte list) option" where
  "encryptElement nonceBuf elem =
     (if wDropped elem then Some (nonceBuf, wPacket elem)
      else
        let header = PutUint32 MessageTransportType
                     @ PutUint32 (remoteIndex (wKeyPair elem))
                     @ PutUint64 (wNonce elem);
            padded = padContent (wMtu elem) (wPacket elem);
            nonceBuf' = take 4 nonceBuf @ PutUint64 (wNonce elem)
        in case Seal (send (wKeyPair elem)) header nonceBuf' padded [] of
             None \<Rightarrow> None
           | Some packet' \<Rightarrow> Some (nonceBuf', packet'))"

text \<open>The worker's loop over the elements it pops, collecting the packets it leaves.\<close>

fun encryptLoop :: "byte list \<Rightarrow> WorkItem list \<Rightarrow> byte list list option" where
  "encryptLoop nonceBuf [] = Some []"
| "encryptLoop nonceBuf (elem # rest) =
     (case encryptElement nonceBuf elem of
        None \<Rightarrow> None
      | Some (nonceBuf', packet') \<Rightarrow>
          (case encryptLoop nonceBuf' rest of
             None \<Rightarrow> None
           | Some out \<Rightarrow> Some (packet' # out)))"

definition RoutineEncryption :: "WorkItem list \<Rightarrow> byte list list option" where
  "RoutineEncryption work = encryptLoop (replicate NonceSize 0) work"

section \<open>TUN reader: classification of a packet (RoutineReadFromTUN)\<close>

text \<open>
  The constants of golang.org/x/net (\<open>ipv4.Version\<close>, \<open>ipv4.HeaderLen\<close>,
  \<open>ipv6.Version\<close>, \<open>ipv6.HeaderLen\<close>) and of Go's net package
  (\<open>net.IPv4len\<close>, \<open>net.IPv6len\<close>).
\<close>

definition ipv4_Version :: byte where "ipv4_Version = 4"
definition ipv4_HeaderLen :: nat where "ipv4_HeaderLen = 20"
definition ipv6_Version :: byte where "ipv6_Version = 6"
definition ipv6_HeaderLen :: nat where "ipv6_HeaderLen = 40"
definition net_IPv4len :: nat where "net_IPv4len = 4"
definition net_IPv6len :: nat where "net_IPv6len = 16"

text \<open>
  Modelled from the spec: the destination offsets of the repository's ip.go, which the
  spec gives as 16 for IPv4 and 24 for IPv6.
\<close>

definition IPv4offsetDst :: nat where "IPv4offsetDst = 16"
definition IPv6offsetDst :: nat where "IPv6offsetDst = 24"

text \<open>The Go slice expression \<open>s[lo:hi]\<close> for \<open>lo \<le> hi \<le> len(s)\<close>.\<close>

definition slice :: "'a list \<Rightarrow> nat \<Rightarrow> nat \<Rightarrow> 'a list" where
  "slice s lo hi = take (hi - lo) (drop lo s)"

text \<open>The routing table is consumed through its two lookups; peers are numbered.\<close>

record Routing =
  LookupIPv4 :: "byte list \<Rightarrow> nat option"
  LookupIPv6 :: "byte list \<Rightarrow> nat option"

datatype tunRead = ReadError | ReadOk "byte list"

text \<open>
  What one iteration of the reader's loop does with the element it holds: the read
  fails and the device is closed; the iteration ends at a \<open>continue\<close> (or at the
  end of the body with the peer not running) and the element is reused, nothing being
  enqueued; or the element is added to a peer's nonce queue, after a handshake
  initiation when the flag \<open>packetInNonceQueueIsAwaitingKey\<close> says so.
\<close>

datatype tunStep = TunFatal | TunSkip | TunEnqueue nat bool "byte list"

definition tunIteration ::
  "Constants \<Rightarrow> Routing \<Rightarrow> (nat \<Rightarrow> bool) \<Rightarrow> (nat \<Rightarrow> bool) \<Rightarrow> tunRead \<Rightarrow> tunStep" where
  "tunIteration c routing isRunning awaitingKey rd =
     (case rd of
        ReadError \<Rightarrow> TunFatal
      | ReadOk packet \<Rightarrow>
          if length packet = 0 \<or> length packet > MaxContentSize c then TunSkip
          else
            let version = drop_bit 4 (packet ! 0) in
            if version = ipv4_Version then
              (if length packet < ipv4_HeaderLen then TunSkip
               else
                 (case LookupIPv4 routing
                         (slice packet IPv4offsetDst (IPv4offsetDst + net_IPv4len)) of
                    None \<Rightarrow> TunSkip
                  | Some peer \<Rightarrow>
                      if isRunning peer then TunEnqueue peer (awaitingKey peer) packet
                      else TunSkip))
            else if version = ipv6_Version then
              (if length packet < ipv6_HeaderLen then TunSkip
               else
                 (case LookupIPv6 routing
                         (slice packet IPv6offsetDst (IPv6offsetDst + net_IPv6len)) of
                    None \<Rightarrow> TunSkip
                  | Some peer \<Rightarrow>
                      if isRunning peer then TunEnqueue peer (awaitingKey peer) packet
                      else TunSkip))
            else TunSkip)"

section \<open>Handshake initiation and rekeying (SendHandshakeInitiation, keepKeyFreshSending)\<close>

type_synonym error = nat

record Timers =
  handshakeAttempts :: nat
  lastSentHandshake :: int

text \<open>
  The calls a routine makes to code outside this file, in order; the entry of
  \<open>SendHandshakeInitiation\<close> itself is recorded with its argument.
\<close>

datatype call =
    EnterSendHandshakeInitiation bool
  | CreateMessageInitiation
  | AddMacs
  | TimersAnyAuthenticatedPacketTraversal
  | TimersHandshakeInitiated
  | SendBuffer

text \<open>
  What the environment answers during one call of \<open>SendHandshakeInitiation\<close>: the
  two readings of the clock (the rate-limit test, then the assignment to
  \<open>lastSentHandshake\<close>), the error of \<open>CreateMessageInitiation\<close> and the error of
  \<open>SendBuffer\<close> (\<open>None\<close> is \<open>nil\<close>).
\<close>

record hsEnv =
  nowTest :: int
  nowStore :: int
  createErr :: "error option"
  sendErr :: "error option"

definition SendHandshakeInitiation ::
  "Constants \<Rightarrow> hsEnv \<Rightarrow> bool \<Rightarrow> Timers \<Rightarrow> Timers \<times> error option \<times> call list" where
  "SendHandshakeInitiation c env isRetry tm =
     (let tm1 = (if \<not> isRetry then tm\<lparr>handshakeAttempts := 0\<rparr> else tm) in
      if nowTest env - lastSentHandshake tm1 < RekeyTimeout c
      then (tm1, None, [EnterSendHandshakeInitiation isRetry])
      else
        let tm2 = tm1\<lparr>lastSentHandshake := nowStore env\<rparr> in
        (case createErr env of
           Some err \<Rightarrow>
             (tm2, Some err, [EnterSendHandshakeInitiation isRetry, CreateMessageInitiation])
         | None \<Rightarrow>
             (tm2, sendErr env,
              [EnterSendHandshakeInitiation isRetry, CreateMessageInitiation, AddMacs,
               TimersAnyAuthenticatedPacketTraversal, TimersHandshakeInitiated, SendBuffer])))"

text \<open>
  \<open>keepKeyFreshSending\<close>: the current keypair is \<open>None\<close> for \<open>nil\<close>; \<open>now\<close>
  is the clock read in the condition. The error of the initiation is discarded.
\<close>

definition keepKeyFreshSending ::
  "Constants \<Rightarrow> int \<Rightarrow> hsEnv \<Rightarrow> Keypair option \<Rightarrow> Timers \<Rightarrow> Timers \<times> call list" where
  "keepKeyFreshSending c now env current tm =
     (case current of
        None \<Rightarrow> (tm, [])
      | Some kp \<Rightarrow>
          let nonce = sendNonce kp in
          if nonce > RekeyAfterMessages c
             \<or> (isInitiator kp \<and> now - created kp > RekeyAfterTime c)
          then (case SendHandshakeInitiation c env False tm of
                  (tm', err, calls) \<Rightarrow> (tm', calls))
          else (tm, []))"

text \<open>The number of handshake initiations handed to the bind in a sequence of calls.\<close>

definition sends :: "call list \<Rightarrow> nat" where
  "sends calls = length (filter (\<lambda>x. x = SendBuffer) calls)"

text \<open>
  The three trigger sites call \<open>SendHandshakeInitiation\<close> from three routines, and
  \<open>lastSentHandshake\<close> is read and written with no lock. Between the test of the
  rate limit and the assignment another routine can run, so the function is also given in
  its two halves: \<open>handshakeTest\<close> is the code up to the early return (the result
  says whether the call goes on), \<open>handshakeSend\<close> is the rest.
\<close>

definition handshakeTest :: "Constants \<Rightarrow> hsEnv \<Rightarrow> bool \<Rightarrow> Timers \<Rightarrow> Timers \<times> bool" where
  "handshakeTest c env isRetry tm =
     (let tm1 = (if \<not> isRetry then tm\<lparr>handshakeAttempts := 0\<rparr> else tm)
      in (tm1, \<not> (nowTest env - lastSentHandshake tm1 < RekeyTimeout c)))"

definition handshakeSend :: "hsEnv \<Rightarrow> Timers \<Rightarrow> Timers \<times> error option \<times> call list" where
  "handshakeSend env tm =
     (let tm2 = tm\<lparr>lastSentHandshake := nowStore env\<rparr> in
      case createErr env of
        Some err \<Rightarrow> (tm2, Some err, [CreateMessageInitiation])
      | None \<Rightarrow>
          (tm2, sendErr env,
           [CreateMessageInitiation, AddMacs, TimersAnyAuthenticatedPacketTraversal,
            TimersHandshakeInitiated, SendBuffer]))"

text \<open>
  Two calls on the same peer, from two routines, scheduled so that both run their test
  before either runs its second half. The result is the timers and the calls the two
  routines made, the first routine's first.
\<close>

definition raceTwoCalls ::
  "Constants \<Rightarrow> hsEnv \<Rightarrow> bool \<Rightarrow> hsEnv \<Rightarrow> bool \<Rightarrow> Timers \<Rightarrow> Timers \<times> call list" where
  "raceTwoCalls c envA retryA envB retryB tm =
     (case handshakeTest c envA retryA tm of
        (tm1, goA) \<Rightarrow>
          (case handshakeTest c envB retryB tm1 of
             (tm2, goB) \<Rightarrow>
               (case (if goA then handshakeSend envA tm2 else (tm2, None, [])) of
                  (tm3, errA, callsA) \<Rightarrow>
                    (case (if goB then handshakeSend envB tm3 else (tm3, None, [])) of
                       (tm4, errB, callsB) \<Rightarrow> (tm4, callsA @ callsB)))))"

section \<open>UDP bind: sending with a sticky source (send4, send6, Send)\<close>

type_synonym errno = nat

definition EINVAL :: errno where
  "EINVAL = 22"

record Sockaddr =
  saPort :: int
  saZoneId :: "32 word"
  saAddr :: "byte list"

text \<open>
  \<open>NativeEndpoint\<close>: \<open>src\<close> is the raw array of 16 bytes; \<open>src4()\<close> reads its
  first eight bytes as an \<open>IPv4Source\<close> (four address bytes, then the interface
  index as a 32-bit integer in the host's byte order, little-endian here), and
  \<open>src6()\<close> reads all of it as the IPv6 address. The destination is kept as the
  socket address it is read as.
\<close>

record NativeEndpoint =
  dst :: Sockaddr
  src :: "byte list"
  isV6 :: bool

definition src4_src :: "NativeEndpoint \<Rightarrow> byte list" where
  "src4_src e = take 4 (src e)"

definition src4_ifindex :: "NativeEndpoint \<Rightarrow> 32 word" where
  "src4_ifindex e = word_rcat (rev (take 4 (drop 4 (src e))))"

definition src6_src :: "NativeEndpoint \<Rightarrow> byte list" where
  "src6_src e = src e"

definition ClearSrc :: "NativeEndpoint \<Rightarrow> NativeEndpoint" where
  "ClearSrc e = e\<lparr>src := replicate (length (src e)) 0\<rparr>"

text \<open>
  The packet-info part of the control message: \<open>unix.Inet4Pktinfo\<close> (interface index,
  \<open>Spec_dst\<close>, \<open>Addr\<close>) or \<open>unix.Inet6Pktinfo\<close> (address, interface index). The
  zero value of each is the empty packet info.
\<close>

datatype pktinfo =
    Inet4Pktinfo "32 word" "byte list" "byte list"
  | Inet6Pktinfo "byte list" "32 word"

definition emptyInet4Pktinfo :: pktinfo where
  "emptyInet4Pktinfo = Inet4Pktinfo 0 (replicate 4 0) (replicate 4 0)"

definition emptyInet6Pktinfo :: pktinfo where
  "emptyInet6Pktinfo = Inet6Pktinfo (replicate 16 0) 0"

record sendmsgCall =
  smSock :: int
  smBuff :: "byte list"
  smPktinfo :: pktinfo
  smTo :: Sockaddr

text \<open>
  The kernel answers each \<open>sendmsg\<close> with an error number or success (\<open>None\<close>);
  its answer may depend on how many calls this send has made before and on the call.
  A send returns the endpoint as it leaves it, the error and the calls it made.
\<close>

type_synonym kernel = "nat \<Rightarrow> sendmsgCall \<Rightarrow> errno option"

definition send4 ::
  "kernel \<Rightarrow> int \<Rightarrow> NativeEndpoint \<Rightarrow> byte list
     \<Rightarrow> NativeEndpoint \<times> errno option \<times> sendmsgCall list" where
  "send4 k sock end buff =
     (let cmsg = Inet4Pktinfo (src4_ifindex end) (src4_src end) (replicate 4 0);
          call1 = \<lparr>smSock = sock, smBuff = buff, smPktinfo = cmsg, smTo = dst end\<rparr>;
          err = k 0 call1
      in if err = None then (end, None, [call1])
         else if err = Some EINVAL then
           (let end' = ClearSrc end;
                call2 = call1\<lparr>smPktinfo := emptyInet4Pktinfo\<rparr>
            in (end', k 1 call2, [call1, call2]))
         else (end, err, [call1]))"

definition send6 ::
  "kernel \<Rightarrow> int \<Rightarrow> NativeEndpoint \<Rightarrow> byte list
     \<Rightarrow> NativeEndpoint \<times> errno option \<times> sendmsgCall list" where
  "send6 k sock end buff =
     (let addr = src6_src end;
          ifindex = (if addr = replicate 16 0 then 0 else saZoneId (dst end));
          cmsg = Inet6Pktinfo addr ifindex;
          call1 = \<lparr>smSock = sock, smBuff = buff, smPktinfo = cmsg, smTo = dst end\<rparr>;
          err = k 0 call1
      in if err = None then (end, None, [call1])
         else if err = Some EINVAL then
           (let end' = ClearSrc end;
                call2 = call1\<lparr>smPktinfo := emptyInet6Pktinfo\<rparr>
            in (end', k 1 call2, [call1, call2]))
         else (end, err, [call1]))"

record NativeBind =
  sock4 :: int
  sock6 :: int

definition Send ::
  "kernel \<Rightarrow> NativeBind \<Rightarrow> byte list \<Rightarrow> NativeEndpoint
     \<Rightarrow> NativeEndpoint \<times> errno option \<times> sendmsgCall list" where
  "Send k bind buff end =
     (if \<not> isV6 end then send4 k (sock4 bind) end buff
      else send6 k (sock6 bind) end buff)"

text \<open>The first \<open>sendmsg\<close> of a send: the cached source as packet info.\<close>

definition firstCall :: "NativeBind \<Rightarrow> byte list \<Rightarrow> NativeEndpoint \<Rightarrow> sendmsgCall" where
  "firstCall bind buff end =
     (if \<not> isV6 end
      then \<lparr>smSock = sock4 bind, smBuff = buff,
            smPktinfo = Inet4Pktinfo (src4_ifindex end) (src4_src end) (replicate 4 0),
            smTo = dst end\<rparr>
      else \<lparr>smSock = sock6 bind, smBuff = buff,
            smPktinfo = Inet6Pktinfo (src6_src end)
                          (if src6_src end = replicate 16 0 then 0 else saZoneId (dst end)),
            smTo = dst end\<rparr>)"

definition emptyPktinfo :: "NativeEndpoint \<Rightarrow> pktinfo" where
  "emptyPktinfo end = (if \<not> isV6 end then emptyInet4Pktinfo else emptyInet6Pktinfo)"

section \<open>The outbound pipeline as a transition system\<close>

text \<open>
  The routines of send.go run concurrently and communicate through channels. The model
  interleaves them: a state of the device, and one function for each atomic action of a
  routine. Work elements live in a store indexed by number (the address of the element);
  queues hold these numbers. The buffer of an element is named by the element.
\<close>

record QueueOutboundElement =
  dropped :: bool
  mutex :: bool
  packet :: "byte list"
  nonce :: "64 word"
  keyPair :: "(nat \<times> nat) option"
  peer :: "nat option"

text \<open>
  \<open>NewOutboundElement\<close>: not dropped, the mutex unlocked, the other fields zero. The
  pointer \<open>keyPair\<close> is a peer and the number of one of its keypairs.
\<close>

definition NewOutboundElement :: QueueOutboundElement where
  "NewOutboundElement =
     \<lparr>dropped = False, mutex = False, packet = [], nonce = 0, keyPair = None, peer = None\<rparr>"

text \<open>
  Where \<open>RoutineNonce\<close> of a peer stands: at the outer \<open>select\<close>; holding an element at
  the head of the key loop; holding it at the inner \<open>select\<close>, waiting for a signal;
  past the loop with a usable keypair; before \<open>elem.mutex.Lock()\<close> and
  \<open>addToEncryptionQueue\<close>; before \<open>addToOutboundQueue\<close>.
\<close>

datatype nonceState =
    SeqIdle
  | SeqWaitKey nat
  | SeqAwaitSignal nat
  | SeqHaveKey nat nat
  | SeqToEncryption nat
  | SeqToOutbound nat

text \<open>
  The state. Besides the program's own variables it keeps a history for stating
  properties: the elements put on each peer's nonce queue in order (\<open>submitted\<close>), the
  calls of \<open>SendBuffer\<close> by each sender with their success (\<open>sentLog\<close>), the buffers
  given to \<open>PutMessageBuffer\<close> (\<open>pool\<close>), the calls of \<open>mutex.Unlock\<close>
  (\<open>unlockLog\<close>), the elements evicted from the encryption queue, the elements
  sealed by a worker (each with the keypair and the nonce it was sealed with), and the
  elements skipped by a worker as dropped. \<open>fault\<close> is the fatal error of the Go runtime
  (unlock of an unlocked mutex, nil pointer, panic in \<open>Seal\<close>).
\<close>

record Device =
  elems :: "nat \<Rightarrow> QueueOutboundElement"
  nextElem :: nat
  isRunning :: "nat \<Rightarrow> bool"
  awaitingKey :: "nat \<Rightarrow> bool"
  keyPairs :: "nat \<Rightarrow> nat \<Rightarrow> Keypair"
  keyCount :: "nat \<Rightarrow> nat"
  current :: "nat \<Rightarrow> nat option"
  queueNonce :: "nat \<Rightarrow> nat list"
  queueOutbound :: "nat \<Rightarrow> nat list"
  queueEncryption :: "nat list"
  nonceRoutine :: "nat \<Rightarrow> nonceState"
  encrypting :: "nat list"
  senderRoutine :: "nat \<Rightarrow> nat option"
  fault :: bool
  submitted :: "nat \<Rightarrow> nat list"
  sentLog :: "nat \<Rightarrow> (nat \<times> bool) list"
  pool :: "nat list"
  unlockLog :: "nat list"
  evictedLog :: "nat list"
  sealedLog :: "(nat \<times> (nat \<times> nat) \<times> 64 word) list"
  skippedLog :: "nat list"

definition newDevice :: Device where
  "newDevice =
     \<lparr>elems = (\<lambda>e. NewOutboundElement), nextElem = 0,
      isRunning = (\<lambda>p. False), awaitingKey = (\<lambda>p. False),
      keyPairs = (\<lambda>p k. \<lparr>sendNonce = 0, isInitiator = False, created = 0,
                           remoteIndex = 0, send = (\<lambda>n t a. [])\<rparr>),
      keyCount = (\<lambda>p. 0), current = (\<lambda>p. None),
      queueNonce = (\<lambda>p. []), queueOutbound = (\<lambda>p. []), queueEncryption = [],
      nonceRoutine = (\<lambda>p. SeqIdle), encrypting = [], senderRoutine = (\<lambda>p. None),
      fault = False,
      submitted = (\<lambda>p. []), sentLog = (\<lambda>p. []), pool = [], unlockLog = [],
      evictedLog = [], sealedLog = [], skippedLog = []\<rparr>"

subsection \<open>Elements: Drop, Lock, Unlock\<close>

definition Drop :: "nat \<Rightarrow> Device \<Rightarrow> Device" where
  "Drop e s = s\<lparr>elems := (elems s)(e := (elems s e)\<lparr>dropped := True\<rparr>)\<rparr>"

definition IsDropped :: "nat \<Rightarrow> Device \<Rightarrow> bool" where
  "IsDropped e s = dropped (elems s e)"

text \<open>\<open>Lock\<close> is taken by a routine only when the mutex is free; until then it blocks.\<close>

definition Lock :: "nat \<Rightarrow> Device \<Rightarrow> Device" where
  "Lock e s = s\<lparr>elems := (elems s)(e := (elems s e)\<lparr>mutex := True\<rparr>)\<rparr>"

definition Unlock :: "nat \<Rightarrow> Device \<Rightarrow> Device" where
  "Unlock e s =
     (if mutex (elems s e)
      then s\<lparr>elems := (elems s)(e := (elems s e)\<lparr>mutex := False\<rparr>),
             unlockLog := unlockLog s @ [e]\<rparr>
      else s\<lparr>fault := True\<rparr>)"

subsection \<open>Queues with drop-oldest (addToOutboundQueue, addToEncryptionQueue)\<close>

text \<open>
  The loop the two functions share, on a channel of capacity \<open>cap\<close> holding \<open>queue\<close>:
  the send succeeds when there is room; otherwise the front element is received (and
  evicted) and the send is tried again. The result is the new content and the evicted
  elements, oldest first. With capacity 0 and nobody receiving, the loop spins for ever:
  \<open>None\<close>.
\<close>

fun offer :: "nat \<Rightarrow> nat list \<Rightarrow> nat \<Rightarrow> (nat list \<times> nat list) option" where
  "offer cap [] element = (if 0 < cap then Some ([element], []) else None)"
| "offer cap (old # rest) element =
     (if length (old # rest) < cap then Some ((old # rest) @ [element], [])
      else (case offer cap rest element of
              None \<Rightarrow> None
            | Some (queue', evicted) \<Rightarrow> Some (queue', old # evicted)))"

definition addToOutboundQueue ::
  "nat \<Rightarrow> nat list \<Rightarrow> nat \<Rightarrow> Device \<Rightarrow> (nat list \<times> Device) option" where
  "addToOutboundQueue cap queue element s =
     (case offer cap queue element of
        None \<Rightarrow> None
      | Some (queue', evicted) \<Rightarrow> Some (queue', fold Drop evicted s))"

definition addToEncryptionQueue :: "nat \<Rightarrow> nat \<Rightarrow> Device \<Rightarrow> Device option" where
  "addToEncryptionQueue cap element s =
     (case offer cap (queueEncryption s) element of
        None \<Rightarrow> None
      | Some (queue', evicted) \<Rightarrow>
          Some ((fold (\<lambda>old s'. Unlock old (Drop old s')) evicted s)
                  \<lparr>queueEncryption := queue', evictedLog := evictedLog s @ evicted\<rparr>))"

subsection \<open>RoutineReadFromTUN and SendKeepalive\<close>

text \<open>
  One iteration of the reader with the result of the read. The element the reader holds
  gets the next free number when it is enqueued. The handshake initiation that the
  reader may trigger touches the peer's timers only and is left out here; a read error
  ends the reader. A reader that spins in \<open>addToOutboundQueue\<close> for ever has no effect.
\<close>

definition tunRead :: "Constants \<Rightarrow> Routing \<Rightarrow> tunRead \<Rightarrow> Device \<Rightarrow> Device" where
  "tunRead c routing rd s =
     (case tunIteration c routing (isRunning s) (awaitingKey s) rd of
        TunFatal \<Rightarrow> s
      | TunSkip \<Rightarrow> s
      | TunEnqueue p handshake pkt \<Rightarrow>
          let e = nextElem s;
              s1 = s\<lparr>elems := (elems s)(e := NewOutboundElement\<lparr>packet := pkt\<rparr>),
                     nextElem := Suc e\<rparr>
          in case addToOutboundQueue (QueueNonceSize c) (queueNonce s1 p) e s1 of
               None \<Rightarrow> s
             | Some (queue', s2) \<Rightarrow>
                 s2\<lparr>queueNonce := (queueNonce s2)(p := queue'),
                    submitted := (submitted s2)(p := submitted s2 p @ [e])\<rparr>)"

definition SendKeepalive :: "Constants \<Rightarrow> nat \<Rightarrow> Device \<Rightarrow> Device" where
  "SendKeepalive c p s =
     (if length (queueNonce s p) \<noteq> 0 \<or> awaitingKey s p then s
      else
        let e = nextElem s;
            s1 = s\<lparr>elems := (elems s)(e := NewOutboundElement\<lparr>packet := []\<rparr>),
                   nextElem := Suc e\<rparr>
        in if length (queueNonce s1 p) < QueueNonceSize c
           then s1\<lparr>queueNonce := (queueNonce s1)(p := queueNonce s1 p @ [e]),
                   submitted := (submitted s1)(p := submitted s1 p @ [e])\<rparr>
           else s1)"

subsection \<open>RoutineNonce\<close>

definition nonceReceive :: "nat \<Rightarrow> Device \<Rightarrow> Device" where
  "nonceReceive p s =
     (case nonceRoutine s p of
        SeqIdle \<Rightarrow>
          (case queueNonce s p of
             [] \<Rightarrow> s
           | e # rest \<Rightarrow>
               s\<lparr>queueNonce := (queueNonce s)(p := rest),
                 nonceRoutine := (nonceRoutine s)(p := SeqWaitKey e)\<rparr>)
      | _ \<Rightarrow> s)"

text \<open>
  The head of the key loop at time \<open>now\<close>: with a current keypair whose
  \<open>sendNonce\<close> is below \<open>RejectAfterMessages\<close> and whose age is below
  \<open>RejectAfterTime\<close> the loop is left; otherwise the flag is set, a handshake is asked
  for and the routine waits at the inner \<open>select\<close>.
\<close>

definition nonceTestKey :: "Constants \<Rightarrow> int \<Rightarrow> nat \<Rightarrow> Device \<Rightarrow> Device" where
  "nonceTestKey c now p s =
     (case nonceRoutine s p of
        SeqWaitKey e \<Rightarrow>
          (case current s p of
             Some k \<Rightarrow>
               if sendNonce (keyPairs s p k) < RejectAfterMessages c
                  \<and> now - created (keyPairs s p k) < RejectAfterTime c
               then s\<lparr>nonceRoutine := (nonceRoutine s)(p := SeqHaveKey e k)\<rparr>
               else s\<lparr>awaitingKey := (awaitingKey s)(p := True),
                      nonceRoutine := (nonceRoutine s)(p := SeqAwaitSignal e)\<rparr>
           | None \<Rightarrow>
               s\<lparr>awaitingKey := (awaitingKey s)(p := True),
                 nonceRoutine := (nonceRoutine s)(p := SeqAwaitSignal e)\<rparr>)
      | _ \<Rightarrow> s)"

definition nonceNewKeypairArrived :: "nat \<Rightarrow> Device \<Rightarrow> Device" where
  "nonceNewKeypairArrived p s =
     (case nonceRoutine s p of
        SeqAwaitSignal e \<Rightarrow> s\<lparr>nonceRoutine := (nonceRoutine s)(p := SeqWaitKey e)\<rparr>
      | _ \<Rightarrow> s)"

text \<open>The signal \<open>flushNonceQueue\<close>: the queue is drained and the routine starts over.\<close>

definition nonceFlush :: "nat \<Rightarrow> Device \<Rightarrow> Device" where
  "nonceFlush p s =
     (case nonceRoutine s p of
        SeqAwaitSignal e \<Rightarrow>
          s\<lparr>queueNonce := (queueNonce s)(p := []),
            awaitingKey := (awaitingKey s)(p := False),
            nonceRoutine := (nonceRoutine s)(p := SeqIdle)\<rparr>
      | _ \<Rightarrow> s)"

text \<open>
  ``Populate work element'': the flag is cleared, \<open>elem.peer\<close> is set, the nonce is
  \<open>atomic.AddUint64(&keyPair.sendNonce, 1) - 1\<close>; an element whose nonce is not below
  \<open>RejectAfterMessages\<close> is dropped (\<open>goto NextPacket\<close>); otherwise the keypair is
  stored in the element and \<open>dropped\<close> is cleared.
\<close>

definition noncePopulate :: "Constants \<Rightarrow> nat \<Rightarrow> Device \<Rightarrow> Device" where
  "noncePopulate c p s =
     (case nonceRoutine s p of
        SeqHaveKey e k \<Rightarrow>
          let kp = keyPairs s p k;
              new = sendNonce kp + 1;
              n = new - 1;
              s1 = s\<lparr>awaitingKey := (awaitingKey s)(p := False),
                     elems := (elems s)(e := (elems s e)\<lparr>peer := Some p, nonce := n\<rparr>),
                     keyPairs := (keyPairs s)(p := (keyPairs s p)(k := kp\<lparr>sendNonce := new\<rparr>))\<rparr>
          in if n \<ge> RejectAfterMessages c
             then s1\<lparr>nonceRoutine := (nonceRoutine s1)(p := SeqIdle)\<rparr>
             else s1\<lparr>elems := (elems s1)(e := (elems s1 e)\<lparr>keyPair := Some (p, k),
                                                           dropped := False\<rparr>),
                     nonceRoutine := (nonceRoutine s1)(p := SeqToEncryption e)\<rparr>
      | _ \<Rightarrow> s)"

definition nonceToEncryption :: "Constants \<Rightarrow> nat \<Rightarrow> Device \<Rightarrow> Device" where
  "nonceToEncryption c p s =
     (case nonceRoutine s p of
        SeqToEncryption e \<Rightarrow>
          if mutex (elems s e) then s
          else (case addToEncryptionQueue (QueueEncryptionSize c) e (Lock e s) of
                  None \<Rightarrow> s
                | Some s1 \<Rightarrow> s1\<lparr>nonceRoutine := (nonceRoutine s1)(p := SeqToOutbound e)\<rparr>)
      | _ \<Rightarrow> s)"

definition nonceToOutbound :: "Constants \<Rightarrow> nat \<Rightarrow> Device \<Rightarrow> Device" where
  "nonceToOutbound c p s =
     (case nonceRoutine s p of
        SeqToOutbound e \<Rightarrow>
          (case addToOutboundQueue (QueueOutboundSize c) (queueOutbound s p) e s of
             None \<Rightarrow> s
           | Some (queue', s1) \<Rightarrow>
               s1\<lparr>queueOutbound := (queueOutbound s1)(p := queue'),
                  nonceRoutine := (nonceRoutine s1)(p := SeqIdle)\<rparr>)
      | _ \<Rightarrow> s)"

subsection \<open>RoutineEncryption\<close>

text \<open>
  A worker receives the front of the encryption queue and tests \<open>IsDropped\<close>: a
  dropped element is skipped (\<open>continue\<close>), another one is worked on.
\<close>

definition encryptionReceive :: "Device \<Rightarrow> Device" where
  "encryptionReceive s =
     (case queueEncryption s of
        [] \<Rightarrow> s
      | e # rest \<Rightarrow>
          if IsDropped e s
          then s\<lparr>queueEncryption := rest, skippedLog := skippedLog s @ [e]\<rparr>
          else s\<lparr>queueEncryption := rest, encrypting := encrypting s @ [e]\<rparr>)"

text \<open>
  The rest of the iteration for an element a worker works on, with the MTU read at that
  moment: header, padding, sealing, and \<open>elem.mutex.Unlock()\<close>. The first four bytes
  of a worker's nonce array are never written, so the array is taken as zero.
\<close>

definition encryptionSeal :: "int \<Rightarrow> nat \<Rightarrow> Device \<Rightarrow> Device" where
  "encryptionSeal mtu e s =
     (if e \<in> set (encrypting s) then
        (case keyPair (elems s e) of
           None \<Rightarrow> s\<lparr>fault := True\<rparr>
         | Some (p, k) \<Rightarrow>
             (case encryptElement (replicate NonceSize 0)
                     \<lparr>wDropped = False, wPacket = packet (elems s e),
                      wNonce = nonce (elems s e), wKeyPair = keyPairs s p k, wMtu = mtu\<rparr> of
                None \<Rightarrow> s\<lparr>fault := True\<rparr>
              | Some (nonceBuf, packet') \<Rightarrow>
                  Unlock e
                    (s\<lparr>elems := (elems s)(e := (elems s e)\<lparr>packet := packet'\<rparr>),
                       encrypting := remove1 e (encrypting s),
                       sealedLog := sealedLog s @ [(e, (p, k), nonce (elems s e))]\<rparr>)))
      else s)"

subsection \<open>RoutineSequentialSender\<close>

definition senderReceive :: "nat \<Rightarrow> Device \<Rightarrow> Device" where
  "senderReceive p s =
     (case senderRoutine s p of
        None \<Rightarrow>
          (case queueOutbound s p of
             [] \<Rightarrow> s
           | e # rest \<Rightarrow>
               s\<lparr>queueOutbound := (queueOutbound s)(p := rest),
                 senderRoutine := (senderRoutine s)(p := Some e)\<rparr>)
      | Some e \<Rightarrow> s)"

text \<open>
  The sender takes the element's mutex once it is free. A dropped element is skipped
  (\<open>continue\<close>). Otherwise \<open>SendBuffer\<close> is called, with success \<open>ok\<close>, and the
  buffer goes to \<open>PutMessageBuffer\<close>. The timers and \<open>keepKeyFreshSending\<close> that
  follow a successful send touch the peer's timers only.
\<close>

definition senderLock :: "bool \<Rightarrow> nat \<Rightarrow> Device \<Rightarrow> Device" where
  "senderLock ok p s =
     (case senderRoutine s p of
        None \<Rightarrow> s
      | Some e \<Rightarrow>
          if mutex (elems s e) then s
          else
            let s1 = Lock e s in
            if IsDropped e s1
            then s1\<lparr>senderRoutine := (senderRoutine s1)(p := None)\<rparr>
            else s1\<lparr>sentLog := (sentLog s1)(p := sentLog s1 p @ [(e, ok)]),
                    pool := pool s1 @ [e],
                    senderRoutine := (senderRoutine s1)(p := None)\<rparr>)"

subsection \<open>The environment of the pipeline\<close>

text \<open>
  The handshake installs a keypair as the peer's current one or removes the current
  one; the control plane starts and stops a peer.
\<close>

definition installKeypair :: "nat \<Rightarrow> Keypair \<Rightarrow> Device \<Rightarrow> Device" where
  "installKeypair p kp s =
     s\<lparr>keyPairs := (keyPairs s)(p := (keyPairs s p)(keyCount s p := kp)),
       current := (current s)(p := Some (keyCount s p)),
       keyCount := (keyCount s)(p := Suc (keyCount s p))\<rparr>"

definition clearKeypair :: "nat \<Rightarrow> Device \<Rightarrow> Device" where
  "clearKeypair p s = s\<lparr>current := (current s)(p := None)\<rparr>"

definition setRunning :: "nat \<Rightarrow> bool \<Rightarrow> Device \<Rightarrow> Device" where
  "setRunning p b s = s\<lparr>isRunning := (isRunning s)(p := b)\<rparr>"

subsection \<open>Interleaving\<close>

datatype event =
    TunRead tunRead
  | Keepalive nat
  | NonceReceive nat
  | NonceTestKey nat int
  | NonceNewKeypairArrived nat
  | NonceFlush nat
  | NoncePopulate nat
  | NonceToEncryption nat
  | NonceToOutbound nat
  | EncryptionReceive
  | EncryptionSeal nat int
  | SenderReceive nat
  | SenderLock nat bool
  | InstallKeypair nat Keypair
  | ClearKeypair nat
  | SetRunning nat bool

text \<open>
  An action that is not enabled (an empty queue, a mutex that is held) leaves the state
  as it is; after a fault nothing runs. A routine that has stopped is one whose actions
  are not scheduled any more.
\<close>

definition step :: "Constants \<Rightarrow> Routing \<Rightarrow> event \<Rightarrow> Device \<Rightarrow> Device" where
  "step c routing ev s =
     (if fault s then s
      else case ev of
        TunRead rd \<Rightarrow> tunRead c routing rd s
      | Keepalive p \<Rightarrow> SendKeepalive c p s
      | NonceReceive p \<Rightarrow> nonceReceive p s
      | NonceTestKey p now \<Rightarrow> nonceTestKey c now p s
      | NonceNewKeypairArrived p \<Rightarrow> nonceNewKeypairArrived p s
      | NonceFlush p \<Rightarrow> nonceFlush p s
      | NoncePopulate p \<Rightarrow> noncePopulate c p s
      | NonceToEncryption p \<Rightarrow> nonceToEncryption c p s
      | NonceToOutbound p \<Rightarrow> nonceToOutbound c p s
      | EncryptionReceive \<Rightarrow> encryptionReceive s
      | EncryptionSeal e mtu \<Rightarrow> encryptionSeal mtu e s
      | SenderReceive p \<Rightarrow> senderReceive p s
      | SenderLock p ok \<Rightarrow> senderLock ok p s
      | InstallKeypair p kp \<Rightarrow> installKeypair p kp s
      | ClearKeypair p \<Rightarrow> clearKeypair p s
      | SetRunning p b \<Rightarrow> setRunning p b s)"

fun run :: "Constants \<Rightarrow> Routing \<Rightarrow> event list \<Rightarrow> Device \<Rightarrow> Device" where
  "run c routing [] s = s"
| "run c routing (ev # evs) s = run c routing evs (step c routing ev s)"

subsection \<open>What is observed of a run\<close>

text \<open>The elements a peer's sender transmitted, in the order of transmission.\<close>

definition sent :: "Device \<Rightarrow> nat \<Rightarrow> nat list" where
  "sent s p = map fst (filter snd (sentLog s p))"

text \<open>\<open>a\<close> stands before \<open>b\<close> in a list.\<close>

fun precedes :: "'a \<Rightarrow> 'a \<Rightarrow> 'a list \<Rightarrow> bool" where
  "precedes a b [] = False"
| "precedes a b (x # xs) = (if x = a then b \<in> set xs else precedes a b xs)"

section \<open>Invariants of the pipeline\<close>

text \<open>The element a routine holds, as a list.\<close>

fun held :: "nonceState \<Rightarrow> nat list" where
  "held SeqIdle = []"
| "held (SeqWaitKey e) = [e]"
| "held (SeqAwaitSignal e) = [e]"
| "held (SeqHaveKey e k) = [e]"
| "held (SeqToEncryption e) = [e]"
| "held (SeqToOutbound e) = [e]"

fun holding :: "nat option \<Rightarrow> nat list" where
  "holding None = []"
| "holding (Some e) = [e]"

text \<open>
  The elements of a peer from the oldest to the newest: those its sender has passed to
  \<open>SendBuffer\<close>, the one its sender holds, its outbound queue, the one its nonce
  routine holds, its nonce queue.
\<close>

definition chain :: "Device \<Rightarrow> nat \<Rightarrow> nat list" where
  "chain s p =
     map fst (sentLog s p) @ holding (senderRoutine s p) @ queueOutbound s p
     @ held (nonceRoutine s p) @ queueNonce s p"

text \<open>The elements of a peer that its nonce routine has not locked yet, and those it has.\<close>

fun heldUnlocked :: "nonceState \<Rightarrow> nat list" where
  "heldUnlocked (SeqToOutbound e) = []"
| "heldUnlocked st = held st"

fun heldLocked :: "nonceState \<Rightarrow> nat list" where
  "heldLocked (SeqToOutbound e) = [e]"
| "heldLocked st = []"

definition prelock :: "Device \<Rightarrow> nat \<Rightarrow> nat list" where
  "prelock s p = heldUnlocked (nonceRoutine s p) @ queueNonce s p"

definition postlock :: "Device \<Rightarrow> nat \<Rightarrow> nat list" where
  "postlock s p =
     holding (senderRoutine s p) @ queueOutbound s p @ heldLocked (nonceRoutine s p)"

definition invOrder :: "Device \<Rightarrow> bool" where
  "invOrder s \<longleftrightarrow>
     (\<forall>p. subseq (chain s p) (submitted s p))
     \<and> (\<forall>p. distinct (submitted s p))
     \<and> (\<forall>p. \<forall>e \<in> set (submitted s p). e < nextElem s)
     \<and> (\<forall>p q. p \<noteq> q \<longrightarrow> set (submitted s p) \<inter> set (submitted s q) = {})"

definition invLatch :: "Device \<Rightarrow> bool" where
  "invLatch s \<longleftrightarrow>
     \<not> fault s
     \<and> distinct (queueEncryption s @ encrypting s @ skippedLog s @ unlockLog s)
     \<and> distinct (evictedLog s @ map fst (sealedLog s))
     \<and> set (unlockLog s) = set (evictedLog s) \<union> fst ` set (sealedLog s)
     \<and> (\<forall>e \<in> set (queueEncryption s @ encrypting s @ skippedLog s @ unlockLog s).
           e < nextElem s)
     \<and> (\<forall>e \<in> set (queueEncryption s @ encrypting s @ skippedLog s). mutex (elems s e))
     \<and> (\<forall>e \<in> set (queueEncryption s @ encrypting s). keyPair (elems s e) \<noteq> None)
     \<and> (\<forall>e \<in> set (evictedLog s). dropped (elems s e))
     \<and> (\<forall>p. \<forall>e \<in> set (prelock s p). \<not> mutex (elems s e) \<and> e \<notin> set (unlockLog s))
     \<and> (\<forall>p. \<forall>e \<in> set (postlock s p). mutex (elems s e) \<or> e \<in> set (unlockLog s))
     \<and> (\<forall>p. fst ` set (sentLog s p) \<subseteq> fst ` set (sealedLog s))
     \<and> (\<forall>x \<in> set (sealedLog s).
           keyPair (elems s (fst x)) = Some (fst (snd x))
           \<and> nonce (elems s (fst x)) = snd (snd x))"

definition invPool :: "Device \<Rightarrow> bool" where
  "invPool s \<longleftrightarrow>
     distinct (pool s) \<and> set (pool s) = (\<Union>p. fst ` set (sentLog s p))"

definition invNonce :: "Constants \<Rightarrow> Device \<Rightarrow> bool" where
  "invNonce c s \<longleftrightarrow>
     (\<forall>p e k. nonceRoutine s p = SeqHaveKey e k \<longrightarrow>
        sendNonce (keyPairs s p k) < RejectAfterMessages c \<and> k < keyCount s p)
     \<and> (\<forall>p k. current s p = Some k \<longrightarrow> k < keyCount s p)
     \<and> (\<forall>e p k. keyPair (elems s e) = Some (p, k) \<longrightarrow>
          nonce (elems s e) < sendNonce (keyPairs s p k)
          \<and> nonce (elems s e) < RejectAfterMessages c
          \<and> k < keyCount s p)
     \<and> (\<forall>e1 e2. e1 \<noteq> e2 \<and> keyPair (elems s e1) \<noteq> None
          \<and> keyPair (elems s e1) = keyPair (elems s e2) \<longrightarrow>
          nonce (elems s e1) \<noteq> nonce (elems s e2))"

section \<open>Example values\<close>

text \<open>
  The values WireGuard gives the tunables (\<open>RekeyAfterMessages = 2^64 - 2^16 - 1\<close>,
  \<open>RejectAfterMessages = 2^64 - 2^4 - 1\<close>, 120 s, 180 s, 5 s), and queues of 1024
  elements.
\<close>

definition wgConstants :: Constants where
  "wgConstants =
     \<lparr>RekeyAfterMessages = 18446744073709486079,
      RejectAfterMessages = 18446744073709551599,
      RekeyAfterTime = 120000000000,
      RejectAfterTime = 180000000000,
      RekeyTimeout = 5000000000,
      MaxContentSize = 65503,
      QueueNonceSize = 1024,
      QueueOutboundSize = 1024,
      QueueEncryptionSize = 1024\<rparr>"

text \<open>A routing table that sends every packet to peer 0.\<close>

definition routeAllToPeer0 :: Routing where
  "routeAllToPeer0 = \<lparr>LookupIPv4 = (\<lambda>a. Some 0), LookupIPv6 = (\<lambda>a. Some 0)\<rparr>"

text \<open>
  A keypair of the responder side that has sent one message more than
  \<open>RekeyAfterMessages\<close>; its cipher is a stand-in.
\<close>

definition responderKeypair :: Keypair where
  "responderKeypair =
     \<lparr>sendNonce = 18446744073709486080, isInitiator = False, created = 0,
      remoteIndex = 7, send = (\<lambda>n t a. t)\<rparr>"

definition quietEnv :: hsEnv where
  "quietEnv = \<lparr>nowTest = 1000000000, nowStore = 1000000000, createErr = None, sendErr = None\<rparr>"

text \<open>
  An IPv4 endpoint with a cached source (address 192.0.2.9, interface 3), and a kernel
  that refuses every packet info but the empty one with \<open>EINVAL\<close>.
\<close>

definition stickyEndpoint :: NativeEndpoint where
  "stickyEndpoint =
     \<lparr>dst = \<lparr>saPort = 51820, saZoneId = 0, saAddr = [192, 0, 2, 1]\<rparr>,
      src = [192, 0, 2, 9, 3, 0, 0, 0, 0, 0, 0, 0, 0, 0, 0, 0],
      isV6 = False\<rparr>"

definition strictKernel :: kernel where
  "strictKernel n call = (if smPktinfo call = emptyInet4Pktinfo then None else Some EINVAL)"

section \<open>Lemmas on padding\<close>

lemma padLoop_replicate:
  "padLoop k mtu pkt = pkt @ replicate (min k (nat (mtu - int (length pkt)))) 0"
proof (induction k arbitrary: pkt)
  case 0
  then show ?case by simp
next
  case (Suc k)
  show ?case
  proof (cases "int (length pkt) < mtu")
    case True
    then have "min (Suc k) (nat (mtu - int (length pkt)))
             = Suc (min k (nat (mtu - int (length (pkt @ [0::byte])))))"
      by (simp add: min_def) linarith
    with True Suc show ?thesis
      by (simp add: replicate_app_Cons_same)
  next
    case False
    then show ?thesis by simp
  qed
qed

lemma padContent_replicate:
  "padContent mtu pkt =
     pkt @ replicate (if length pkt mod 16 = 0 then 0
                      else min (16 - length pkt mod 16) (nat (mtu - int (length pkt)))) 0"
  by (simp add: padContent_def PaddingMultiple_def padLoop_replicate Let_def)

lemma length_padContent:
  "length (padContent mtu pkt) =
     length pkt + (if length pkt mod 16 = 0 then 0
                   else min (16 - length pkt mod 16) (nat (mtu - int (length pkt))))"
  by (simp add: padContent_replicate)

section \<open>Lemmas on the encoding and the worker's loop\<close>

lemma length_PutUint32: "length (PutUint32 v) = 4"
  by (simp add: PutUint32_def)

lemma length_PutUint64: "length (PutUint64 v) = 8"
  by (simp add: PutUint64_def)

lemma PutUint32_MessageTransportType: "PutUint32 MessageTransportType = [4, 0, 0, 0]"
  by (simp add: PutUint32_def MessageTransportType_def)

lemma PutUint32_example: "PutUint32 0x04030201 = [1, 2, 3, 4]"
  by (simp add: PutUint32_def)

lemma PutUint64_example: "PutUint64 0x0807060504030201 = [1, 2, 3, 4, 5, 6, 7, 8]"
  by (simp add: PutUint64_def)

lemma replicate_4: "replicate 4 x = [x, x, x, x]"
  by (simp add: numeral_eq_Suc)

lemma encryptElement_sealed:
  assumes "length nonceBuf = 12" and "take 4 nonceBuf = [0, 0, 0, 0]" and "\<not> wDropped elem"
  shows "encryptElement nonceBuf elem =
     Some ([0, 0, 0, 0] @ PutUint64 (wNonce elem),
           [4, 0, 0, 0] @ PutUint32 (remoteIndex (wKeyPair elem)) @ PutUint64 (wNonce elem)
           @ send (wKeyPair elem) ([0, 0, 0, 0] @ PutUint64 (wNonce elem))
               (padContent (wMtu elem) (wPacket elem)) [])"
  using assms
  by (simp add: encryptElement_def Seal_def NonceSize_def length_PutUint64
      PutUint32_MessageTransportType Let_def)

lemma encryptLoop_format:
  "length nonceBuf = 12 \<Longrightarrow> take 4 nonceBuf = [0, 0, 0, 0] \<Longrightarrow>
   encryptLoop nonceBuf work =
     Some (map (\<lambda>elem. if wDropped elem then wPacket elem
                 else [4, 0, 0, 0] @ PutUint32 (remoteIndex (wKeyPair elem))
                      @ PutUint64 (wNonce elem)
                      @ send (wKeyPair elem) ([0, 0, 0, 0] @ PutUint64 (wNonce elem))
                          (padContent (wMtu elem) (wPacket elem)) []) work)"
proof (induction work arbitrary: nonceBuf)
  case Nil
  then show ?case by simp
next
  case (Cons elem rest)
  show ?case
  proof (cases "wDropped elem")
    case True
    with Cons show ?thesis by (simp add: encryptElement_def)
  next
    case False
    let ?nb = "[0, 0, 0, 0] @ PutUint64 (wNonce elem)"
    have len: "length ?nb = 12" by (simp add: length_PutUint64)
    have zs: "take 4 ?nb = [0, 0, 0, 0]" by simp
    from Cons.IH [OF len zs] encryptElement_sealed [OF Cons.prems False] False
    show ?thesis by simp
  qed
qed

section \<open>Lemmas on the handshake initiation\<close>

lemma set_SendHandshakeInitiation:
  "EnterSendHandshakeInitiation r \<in> set (snd (snd (SendHandshakeInitiation c env isRetry tm)))
   \<longleftrightarrow> r = isRetry"
  by (auto simp add: SendHandshakeInitiation_def Let_def split: option.splits)

lemma sends_append: "sends (xs @ ys) = sends xs + sends ys"
  by (simp add: sends_def)

lemma sends_SendHandshakeInitiation_le:
  "SendHandshakeInitiation c env isRetry tm = (tm', err, calls) \<Longrightarrow> sends calls \<le> 1"
  by (auto simp add: SendHandshakeInitiation_def sends_def Let_def
      split: if_splits option.splits)

lemma SendHandshakeInitiation_halves:
  "SendHandshakeInitiation c env isRetry tm =
     (case handshakeTest c env isRetry tm of
        (tm1, go) \<Rightarrow>
          if go then
            (case handshakeSend env tm1 of
               (tm2, err, calls) \<Rightarrow> (tm2, err, EnterSendHandshakeInitiation isRetry # calls))
          else (tm1, None, [EnterSendHandshakeInitiation isRetry]))"
  by (simp add: SendHandshakeInitiation_def handshakeTest_def handshakeSend_def Let_def
      split: option.splits)

section \<open>The wire format of a data message\<close>

text \<open>
  Claim C3. A worker that starts with its nonce array zero leaves, for every element it
  pops that is not dropped, this datagram, byte for byte: the four bytes 4, 0, 0, 0 (the
  type); the four bytes of the keypair's \<open>remoteIndex\<close>, least significant first; the
  eight bytes of the element's nonce, least significant first; then what the keypair's
  cipher returns for the 12-byte nonce of four zero bytes and the same eight nonce bytes,
  for the packet followed by zero bytes as plaintext (as many as lead to the next
  multiple of 16, but not beyond the MTU), and for empty associated data. This is the
  element's packet afterwards; \<open>Seal\<close> never panics; a dropped element keeps its
  packet.
\<close>

theorem RoutineEncryption_wire_format:
  "RoutineEncryption work =
     Some (map (\<lambda>elem.
        if wDropped elem then wPacket elem
        else
          let r = remoteIndex (wKeyPair elem);
              n = wNonce elem;
              len = length (wPacket elem);
              zeros = (if len mod 16 = 0 then 0
                       else min (16 - len mod 16) (nat (wMtu elem - int len)))
          in [4, 0, 0, 0]
             @ [ucast r, ucast (drop_bit 8 r), ucast (drop_bit 16 r), ucast (drop_bit 24 r)]
             @ [ucast n, ucast (drop_bit 8 n), ucast (drop_bit 16 n), ucast (drop_bit 24 n),
                ucast (drop_bit 32 n), ucast (drop_bit 40 n), ucast (drop_bit 48 n),
                ucast (drop_bit 56 n)]
             @ send (wKeyPair elem)
                 [0, 0, 0, 0,
                  ucast n, ucast (drop_bit 8 n), ucast (drop_bit 16 n), ucast (drop_bit 24 n),
                  ucast (drop_bit 32 n), ucast (drop_bit 40 n), ucast (drop_bit 48 n),
                  ucast (drop_bit 56 n)]
                 (wPacket elem @ replicate zeros 0)
                 []) work)"
proof -
  have "RoutineEncryption work =
     Some (map (\<lambda>elem. if wDropped elem then wPacket elem
                 else [4, 0, 0, 0] @ PutUint32 (remoteIndex (wKeyPair elem))
                      @ PutUint64 (wNonce elem)
                      @ send (wKeyPair elem) ([0, 0, 0, 0] @ PutUint64 (wNonce elem))
                          (padContent (wMtu elem) (wPacket elem)) []) work)"
    unfolding RoutineEncryption_def
    by (rule encryptLoop_format) (simp_all add: NonceSize_def numeral_eq_Suc)
  then show ?thesis
    by (simp add: PutUint32_def PutUint64_def padContent_replicate Let_def)
qed

text \<open>
  The bytes of a word in this order are its little-endian encoding: a receiver index
  0x04030201 and a counter 0x0807060504030201 give the bytes 1, 2, 3, 4 and 1 to 8, and a
  packet of three bytes under an MTU of 1420 is sealed with thirteen zero bytes appended.
\<close>

lemma RoutineEncryption_example:
  "RoutineEncryption
     [\<lparr>wDropped = False, wPacket = [69, 1, 2], wNonce = 0x0807060504030201,
       wKeyPair = \<lparr>sendNonce = 0, isInitiator = True, created = 0,
                   remoteIndex = 0x04030201, send = (\<lambda>n t a. n @ t)\<rparr>,
       wMtu = 1420\<rparr>]
   = Some [[4, 0, 0, 0, 1, 2, 3, 4, 1, 2, 3, 4, 5, 6, 7, 8,
            0, 0, 0, 0, 1, 2, 3, 4, 5, 6, 7, 8,
            69, 1, 2, 0, 0, 0, 0, 0, 0, 0, 0, 0, 0, 0, 0, 0]]"
proof -
  have r: "replicate 13 (0::byte) = [0, 0, 0, 0, 0, 0, 0, 0, 0, 0, 0, 0, 0]"
    by (simp add: numeral_eq_Suc)
  show ?thesis
    by (simp add: RoutineEncryption_def encryptElement_def Seal_def NonceSize_def
        PutUint32_def PutUint64_def MessageTransportType_def padContent_replicate r
        replicate_4 Let_def)
qed

section \<open>Padding\<close>

text \<open>
  Claim C4, as amended. Padding appends zero bytes only and never shortens the packet.
  When the packet is not longer than the MTU read by the worker, the padded length is a
  multiple of 16 or equal to the MTU, and is at most the MTU. A packet that is already
  longer than the MTU is left as it is.
\<close>

theorem padContent_bounds:
  "padContent mtu pkt = pkt @ replicate (length (padContent mtu pkt) - length pkt) 0
   \<and> length pkt \<le> length (padContent mtu pkt)
   \<and> (int (length pkt) \<le> mtu \<longrightarrow>
        (length (padContent mtu pkt) mod 16 = 0 \<or> int (length (padContent mtu pkt)) = mtu)
        \<and> int (length (padContent mtu pkt)) \<le> mtu)
   \<and> (mtu < int (length pkt) \<longrightarrow> padContent mtu pkt = pkt)"
proof (intro conjI impI)
  show "padContent mtu pkt = pkt @ replicate (length (padContent mtu pkt) - length pkt) 0"
    by (simp add: length_padContent) (simp add: padContent_replicate)
  show "length pkt \<le> length (padContent mtu pkt)"
    by (simp add: length_padContent)
next
  assume le: "int (length pkt) \<le> mtu"
  show "int (length (padContent mtu pkt)) \<le> mtu"
    using le by (auto simp add: length_padContent min_def)
  show "length (padContent mtu pkt) mod 16 = 0 \<or> int (length (padContent mtu pkt)) = mtu"
  proof (cases "length pkt mod 16 = 0")
    case True
    then show ?thesis by (simp add: length_padContent)
  next
    case False
    show ?thesis
    proof (cases "16 - length pkt mod 16 \<le> nat (mtu - int (length pkt))")
      case True
      have "(length pkt + (16 - length pkt mod 16)) mod 16 = 0"
        by presburger
      with True False show ?thesis by (simp add: length_padContent min_def)
    next
      case far: False
      with False le show ?thesis by (simp add: length_padContent min_def)
    qed
  qed
next
  assume "mtu < int (length pkt)"
  then show "padContent mtu pkt = pkt"
    by (simp add: padContent_replicate)
qed

text \<open>
  A packet of 100 bytes under an MTU of 1420 is padded to 112 bytes; one of 1421 bytes
  under the same MTU stays as it is.
\<close>

theorem padContent_bounds_witness:
  "int (length (replicate 100 (0::byte))) \<le> 1420
   \<and> length (padContent 1420 (replicate 100 0)) = 112
   \<and> length (padContent 1420 (replicate 100 0)) mod 16 = 0
   \<and> int (length (padContent 1420 (replicate 100 0))) \<le> 1420
   \<and> 1420 < int (length (replicate 1421 (0::byte)))
   \<and> padContent 1420 (replicate 1421 0) = replicate 1421 0"
  using padContent_bounds [of 1420 "replicate 100 0"]
    padContent_bounds [of 1420 "replicate 1421 0"]
  by (simp add: length_padContent)

text \<open>
  The claim as stated fails for a packet longer than the MTU: 1421 bytes under an MTU of
  1420 stay 1421 bytes.
\<close>

theorem padContent_over_mtu_counterexample:
  "\<not> (length (replicate 1421 (0::byte)) \<le> length (padContent 1420 (replicate 1421 0))
      \<and> (length (padContent 1420 (replicate 1421 0)) mod 16 = 0
           \<or> int (length (padContent 1420 (replicate 1421 0))) = 1420)
      \<and> int (length (padContent 1420 (replicate 1421 0))) \<le> 1420)"
  by (simp add: length_padContent)

section \<open>Keeping the key fresh\<close>

text \<open>
  Claim C5, as amended. \<open>keepKeyFreshSending\<close> calls \<open>SendHandshakeInitiation\<close>, and
  then with \<open>isRetry = false\<close>, exactly when there is a current keypair and its
  \<open>sendNonce\<close> exceeds \<open>RekeyAfterMessages\<close>, or it is the initiator's and older than
  \<open>RekeyAfterTime\<close>.
\<close>

theorem keepKeyFreshSending_trigger:
  "EnterSendHandshakeInitiation r \<in> set (snd (keepKeyFreshSending c now env cur tm))
   \<longleftrightarrow> (\<not> r \<and> (\<exists>kp. cur = Some kp
           \<and> (sendNonce kp > RekeyAfterMessages c
               \<or> (isInitiator kp \<and> now - created kp > RekeyAfterTime c))))"
proof (cases cur)
  case None
  then show ?thesis by (simp add: keepKeyFreshSending_def)
next
  case (Some kp)
  obtain tm' err calls where r: "SendHandshakeInitiation c env False tm = (tm', err, calls)"
    by (cases "SendHandshakeInitiation c env False tm") auto
  have "EnterSendHandshakeInitiation r \<in> set calls \<longleftrightarrow> \<not> r"
    using set_SendHandshakeInitiation [of r c env False tm] r by simp
  with Some r show ?thesis
    by (auto simp add: keepKeyFreshSending_def Let_def)
qed

text \<open>
  The claim as stated fails for a keypair of the responder side whose \<open>sendNonce\<close> is
  above \<open>RekeyAfterMessages\<close>: the initiation is triggered although the keypair is not
  initiator-side.
\<close>

theorem keepKeyFreshSending_responder_counterexample:
  "\<not> (EnterSendHandshakeInitiation False
        \<in> set (snd (keepKeyFreshSending wgConstants 1000000000 quietEnv (Some responderKeypair)
                      \<lparr>handshakeAttempts = 0, lastSentHandshake = 0\<rparr>))
      \<longleftrightarrow> isInitiator responderKeypair
          \<and> (sendNonce responderKeypair > RekeyAfterMessages wgConstants
              \<or> 1000000000 - created responderKeypair > RekeyAfterTime wgConstants))"
  by (simp add: keepKeyFreshSending_def SendHandshakeInitiation_def wgConstants_def
      responderKeypair_def quietEnv_def)

section \<open>The rate limit of handshake initiations\<close>

text \<open>
  Of two calls of \<open>SendHandshakeInitiation\<close> that run one after the other (whatever
  their \<open>isRetry\<close>), if at the second the time since \<open>lastSentHandshake\<close> is below
  \<open>RekeyTimeout\<close>, the second returns \<open>nil\<close>, hands nothing to \<open>SendBuffer\<close> and
  leaves \<open>lastSentHandshake\<close>; the two calls send at most one initiation. The same bound
  holds when the second call tests the clock less than \<open>RekeyTimeout\<close> after the time
  the first one stored.
\<close>

lemma SendHandshakeInitiation_sequential:
  assumes first: "SendHandshakeInitiation c env1 retry1 tm = (tm1, err1, calls1)"
    and second: "SendHandshakeInitiation c env2 retry2 tm1 = (tm2, err2, calls2)"
  shows "(nowTest env2 - lastSentHandshake tm1 < RekeyTimeout c \<longrightarrow>
            err2 = None \<and> sends calls2 = 0 \<and> sends (calls1 @ calls2) \<le> 1
            \<and> lastSentHandshake tm2 = lastSentHandshake tm1)
       \<and> (nowTest env2 - nowStore env1 < RekeyTimeout c \<longrightarrow> sends (calls1 @ calls2) \<le> 1)"
proof -
  have one: "sends calls1 \<le> 1"
    using first by (rule sends_SendHandshakeInitiation_le)
  have limited: "nowTest env2 - lastSentHandshake tm1 < RekeyTimeout c \<Longrightarrow>
      err2 = None \<and> sends calls2 = 0 \<and> lastSentHandshake tm2 = lastSentHandshake tm1"
    using second
    by (auto simp add: SendHandshakeInitiation_def sends_def Let_def split: if_splits)
  have window: "nowTest env2 - nowStore env1 < RekeyTimeout c \<Longrightarrow>
      sends calls1 = 0 \<or> sends calls2 = 0"
    using first second
    by (auto simp add: SendHandshakeInitiation_def sends_def Let_def
        split: if_splits option.splits)
  have two: "sends calls2 \<le> 1"
    using second by (rule sends_SendHandshakeInitiation_le)
  show ?thesis
    using one two limited window by (auto simp add: sends_append)
qed

text \<open>
  Claim C8. The bound of one initiation in a window of \<open>RekeyTimeout\<close> does not hold
  for calls from different trigger sites: they run in different routines, and
  \<open>lastSentHandshake\<close> is tested and assigned with no lock (the source marks the
  assignment with a TODO). Two calls one millisecond apart, ten seconds after the last
  initiation, that both test the rate limit before either assigns, both hand an
  initiation to \<open>SendBuffer\<close>.
\<close>

theorem SendHandshakeInitiation_race:
  "sends (snd (raceTwoCalls wgConstants
       \<lparr>nowTest = 10000000000, nowStore = 10000000500, createErr = None, sendErr = None\<rparr> False
       \<lparr>nowTest = 10001000000, nowStore = 10001000500, createErr = None, sendErr = None\<rparr> False
       \<lparr>handshakeAttempts = 0, lastSentHandshake = 0\<rparr>)) = 2"
  by (simp add: raceTwoCalls_def handshakeTest_def handshakeSend_def sends_def
      wgConstants_def)

section \<open>Sending with a sticky source\<close>

text \<open>
  Claim C9. \<open>Send\<close> first calls \<open>sendmsg\<close> with the cached source as packet info.
  If that fails with \<open>EINVAL\<close>, the endpoint's source is cleared (all bytes zero),
  \<open>sendmsg\<close> is called once more with the empty packet info, and the result of that
  second call is returned. On another error there is one call only, the error is
  returned and the endpoint is unchanged. On success there is one call only and the
  endpoint, with its cached source, is unchanged. This holds for IPv4 and IPv6 endpoints.
\<close>

theorem Send_retry_on_EINVAL:
  "(k 0 (firstCall bind buff ep) = Some EINVAL \<longrightarrow>
      Send k bind buff ep =
        (ClearSrc ep,
         k 1 ((firstCall bind buff ep)\<lparr>smPktinfo := emptyPktinfo ep\<rparr>),
         [firstCall bind buff ep, (firstCall bind buff ep)\<lparr>smPktinfo := emptyPktinfo ep\<rparr>])
      \<and> src (ClearSrc ep) = replicate (length (src ep)) 0)
   \<and> (k 0 (firstCall bind buff ep) = Some e \<and> e \<noteq> EINVAL \<longrightarrow>
        Send k bind buff ep = (ep, Some e, [firstCall bind buff ep]))
   \<and> (k 0 (firstCall bind buff ep) = None \<longrightarrow>
        Send k bind buff ep = (ep, None, [firstCall bind buff ep]))"
  by (simp add: Send_def send4_def send6_def firstCall_def emptyPktinfo_def Let_def ClearSrc_def)

text \<open>
  An endpoint with a cached source and a kernel that refuses it: two calls, the second
  with the empty packet info, and the source cleared.
\<close>

theorem Send_retry_on_EINVAL_witness:
  "strictKernel 0 (firstCall \<lparr>sock4 = 4, sock6 = 6\<rparr> [1, 2, 3] stickyEndpoint) = Some EINVAL
   \<and> src (fst (Send strictKernel \<lparr>sock4 = 4, sock6 = 6\<rparr> [1, 2, 3] stickyEndpoint))
       = [0, 0, 0, 0, 0, 0, 0, 0, 0, 0, 0, 0, 0, 0, 0, 0]
   \<and> fst (snd (Send strictKernel \<lparr>sock4 = 4, sock6 = 6\<rparr> [1, 2, 3] stickyEndpoint)) = None
   \<and> map smPktinfo (snd (snd (Send strictKernel \<lparr>sock4 = 4, sock6 = 6\<rparr> [1, 2, 3] stickyEndpoint)))
       = [Inet4Pktinfo 3 [192, 0, 2, 9] [0, 0, 0, 0], Inet4Pktinfo 0 [0, 0, 0, 0] [0, 0, 0, 0]]"
proof -
  have first: "strictKernel 0 (firstCall \<lparr>sock4 = 4, sock6 = 6\<rparr> [1, 2, 3] stickyEndpoint)
      = Some EINVAL"
    by (simp add: strictKernel_def firstCall_def stickyEndpoint_def emptyInet4Pktinfo_def
        src4_ifindex_def src4_src_def replicate_4)
  have info: "smPktinfo (firstCall \<lparr>sock4 = 4, sock6 = 6\<rparr> [1, 2, 3] stickyEndpoint)
      = Inet4Pktinfo 3 [192, 0, 2, 9] [0, 0, 0, 0]"
    by (simp add: firstCall_def stickyEndpoint_def src4_ifindex_def src4_src_def
        word_rcat_def replicate_4)
  from Send_retry_on_EINVAL [of strictKernel "\<lparr>sock4 = 4, sock6 = 6\<rparr>" "[1, 2, 3]"
      stickyEndpoint 0] first info
  show ?thesis
    by (simp add: strictKernel_def emptyPktinfo_def emptyInet4Pktinfo_def ClearSrc_def
        stickyEndpoint_def replicate_4)
qed

section \<open>Packets shorter than their IP header\<close>

text \<open>
  Claim C10. An iteration of the TUN reader that reads a packet whose version nibble is
  4 and whose length is below 20, or whose version nibble is 6 and whose length is below
  40, ends without enqueueing anything, whatever the routing table holds.
\<close>

theorem tunIteration_short_header_discarded:
  "(drop_bit 4 (pkt ! 0) = 4 \<and> length pkt < 20)
   \<or> (drop_bit 4 (pkt ! 0) = 6 \<and> length pkt < 40)
   \<Longrightarrow> tunIteration c routing running awaiting (ReadOk pkt) = TunSkip"
  by (auto simp add: tunIteration_def ipv4_Version_def ipv6_Version_def
      ipv4_HeaderLen_def ipv6_HeaderLen_def Let_def)

text \<open>
  An IPv4 packet of 19 bytes is skipped although the routing table has a running peer
  for every destination.
\<close>

theorem tunIteration_short_header_discarded_witness:
  "drop_bit 4 ((0x45 # replicate 18 0) ! 0 :: byte) = 4
   \<and> length (0x45 # replicate 18 (0::byte)) = 19
   \<and> tunIteration wgConstants routeAllToPeer0 (\<lambda>p. True) (\<lambda>p. False)
        (ReadOk (0x45 # replicate 18 0)) = TunSkip"
  using tunIteration_short_header_discarded [of "0x45 # replicate 18 0" wgConstants
      routeAllToPeer0 "\<lambda>p. True" "\<lambda>p. False"]
  by simp

end
